theory Spec2Isabelle
  imports Main "HOL-Library.Word"
begin

section \<open>Errors, JSON documents and HTTP bodies\<close>

text \<open>
  Go's \<open>int\<close> is a 64-bit two's complement integer on the platforms the provider is
  built for; \<open>sint\<close> reads it.
\<close>

type_synonym go_int = "64 word"

text \<open>
  The errors the provider hands upwards. \<open>ValidationError\<close> carries the key of the
  rejected argument, \<open>TransportError\<close> the message of a failed round trip,
  \<open>UnmarshalTypeError\<close> the kind of the JSON value that did not fit its Go field.
\<close>

datatype error =
    ValidationError string
  | TransportError string
  | AuthError
  | SyntaxError
  | UnmarshalTypeError string

text \<open>
  A JSON document as \<open>encoding/json\<close> sees it after scanning. A number literal that is
  an integer is \<open>JInt\<close>; any other number literal (fraction, exponent) is \<open>JReal\<close> with
  its text. An object keeps its members in document order.
\<close>

datatype json =
    JNull
  | JBool bool
  | JInt int
  | JReal string
  | JString string
  | JArray "json list"
  | JObject "(string \<times> json) list"

text \<open>
  The text of a body is not modelled: a body either is a JSON document or is some text
  that is not one.
\<close>

datatype body = Doc json | NotJson string

fun kind_of :: "json \<Rightarrow> string" where
  "kind_of JNull = ''null''"
| "kind_of (JBool b) = ''bool''"
| "kind_of (JInt n) = ''number''"
| "kind_of (JReal s) = ''number''"
| "kind_of (JString s) = ''string''"
| "kind_of (JArray vs) = ''array''"
| "kind_of (JObject kvs) = ''object''"

section \<open>The payload types of \<open>resource_profile.go\<close>\<close>

text \<open>
  A Go slice: its elements, and the cells of its backing array past its length that
  hold what an earlier, longer content left there. Only \<open>json.Unmarshal\<close> ever reads
  the spare cells (when one array member of a document follows another for the same
  field); \<open>len\<close> and \<open>range\<close> see the elements. A nil slice and an empty slice are
  both a slice without elements.
\<close>

datatype 'a slice = Slice (elems: "'a list") (spare: "'a list")

record RadiusAttribute =
  Name :: string
  Value :: "string slice"
  OP :: string
  Expand :: bool
  DoXlat :: bool
  IsJson :: bool

record RadiusProfileAttributes =
  Reply :: "RadiusAttribute slice"
  Control :: "RadiusAttribute slice"

text \<open>
  \<open>Schema\<close> is an \<open>interface{}\<close>: nil, or the generic Go value of a JSON value. It is
  kept as the JSON value it was decoded from, which determines the Go value (the
  nearest \<open>float64\<close> for a number, a map for an object). The provider never sets or
  reads the field.
\<close>

record RadiusProfile =
  ID :: string
  State :: string
  Weight :: go_int
  Depends :: "string slice"
  Description :: string
  Radius :: RadiusProfileAttributes
  Schema :: "json option"

text \<open>The zero values \<open>RadiusAttribute{}\<close>, \<open>RadiusProfileAttributes{}\<close> and
  \<open>RadiusProfile{}\<close>.\<close>

definition zero_RadiusAttribute :: RadiusAttribute where
  "zero_RadiusAttribute =
     \<lparr>Name = [], Value = Slice [] [], OP = [], Expand = False, DoXlat = False,
      IsJson = False\<rparr>"

definition zero_RadiusProfileAttributes :: RadiusProfileAttributes where
  "zero_RadiusProfileAttributes = \<lparr>Reply = Slice [] [], Control = Slice [] []\<rparr>"

definition zero_RadiusProfile :: RadiusProfile where
  "zero_RadiusProfile =
     \<lparr>ID = [], State = [], Weight = 0, Depends = Slice [] [], Description = [],
      Radius = zero_RadiusProfileAttributes, Schema = None\<rparr>"

section \<open>\<open>json.Unmarshal\<close> into the payload types\<close>

text \<open>
  \<open>json.Unmarshal\<close> matches an object key to the field whose tag it equals under
  Unicode simple case folding. The tags of the payload types are lower-case ASCII, and
  the only characters outside ASCII that fold to an ASCII letter are U+017F (long s,
  the bytes C5 BF) and U+212A (the Kelvin sign, the bytes E2 84 AA): a key matches a
  tag when \<open>fold_key\<close> of the key is the tag.
\<close>

definition lower_char :: "char \<Rightarrow> char" where
  "lower_char c =
     (case map_of (zip ''ABCDEFGHIJKLMNOPQRSTUVWXYZ'' ''abcdefghijklmnopqrstuvwxyz'') c of
        None \<Rightarrow> c
      | Some l \<Rightarrow> l)"

fun fold_key :: "string \<Rightarrow> string" where
  "fold_key (c1 # c2 # c3 # cs) =
     (if c1 = CHR 0xE2 \<and> c2 = CHR 0x84 \<and> c3 = CHR 0xAA then CHR ''k'' # fold_key cs
      else if c1 = CHR 0xC5 \<and> c2 = CHR 0xBF then CHR ''s'' # fold_key (c3 # cs)
      else lower_char c1 # fold_key (c2 # c3 # cs))"
| "fold_key [c1, c2] =
     (if c1 = CHR 0xC5 \<and> c2 = CHR 0xBF then [CHR ''s'']
      else lower_char c1 # fold_key [c2])"
| "fold_key [c1] = [lower_char c1]"
| "fold_key [] = []"

text \<open>
  Members are decoded in document order, each into the current value of its field: a
  string, a bool or an int is replaced, a struct is decoded member by member, and
  \<open>null\<close> leaves all of these as they are; an unknown key is skipped. An array is
  decoded element by element into the cells of the slice, the elements it has and the
  spare cells behind them, and into a zero value past those; the slice then has the
  length of the array, and an empty array or \<open>null\<close> gives a slice with no cells. A
  value of the wrong kind is an \<open>UnmarshalTypeError\<close>; \<open>getProfile\<close> drops the partly
  decoded value with it.
\<close>

definition then_set :: "error + 'a \<Rightarrow> ('a \<Rightarrow> 'b) \<Rightarrow> error + 'b" where
  "then_set r f = (case r of Inl e \<Rightarrow> Inl e | Inr x \<Rightarrow> Inr (f x))"

definition unmarshal_string :: "json \<Rightarrow> string \<Rightarrow> error + string" where
  "unmarshal_string v cur =
     (case v of
        JString s \<Rightarrow> Inr s
      | JNull \<Rightarrow> Inr cur
      | _ \<Rightarrow> Inl (UnmarshalTypeError (kind_of v)))"

definition unmarshal_bool :: "json \<Rightarrow> bool \<Rightarrow> error + bool" where
  "unmarshal_bool v cur =
     (case v of
        JBool b \<Rightarrow> Inr b
      | JNull \<Rightarrow> Inr cur
      | _ \<Rightarrow> Inl (UnmarshalTypeError (kind_of v)))"

definition unmarshal_int :: "json \<Rightarrow> go_int \<Rightarrow> error + go_int" where
  "unmarshal_int v cur =
     (case v of
        JInt n \<Rightarrow>
          (if - (2 ^ 63) \<le> n \<and> n < 2 ^ 63 then Inr (word_of_int n)
           else Inl (UnmarshalTypeError (kind_of v)))
      | JNull \<Rightarrow> Inr cur
      | _ \<Rightarrow> Inl (UnmarshalTypeError (kind_of v)))"

fun unmarshal_elements ::
  "(json \<Rightarrow> 'a \<Rightarrow> error + 'a) \<Rightarrow> 'a \<Rightarrow> json list \<Rightarrow> 'a list \<Rightarrow> error + 'a list" where
  "unmarshal_elements f zero [] cells = Inr []"
| "unmarshal_elements f zero (v # vs) cells =
     (case f v (case cells of [] \<Rightarrow> zero | c # cs \<Rightarrow> c) of
        Inl e \<Rightarrow> Inl e
      | Inr x \<Rightarrow>
          (case unmarshal_elements f zero vs (tl cells) of
             Inl e \<Rightarrow> Inl e
           | Inr xs \<Rightarrow> Inr (x # xs)))"

definition unmarshal_slice ::
  "(json \<Rightarrow> 'a \<Rightarrow> error + 'a) \<Rightarrow> 'a \<Rightarrow> json \<Rightarrow> 'a slice \<Rightarrow> error + 'a slice" where
  "unmarshal_slice f zero v cur =
     (case v of
        JArray vs \<Rightarrow>
          then_set (unmarshal_elements f zero vs (elems cur @ spare cur))
            (\<lambda>xs. if vs = [] then Slice [] []
                  else Slice xs (drop (length vs) (elems cur @ spare cur)))
      | JNull \<Rightarrow> Inr (Slice [] [])
      | _ \<Rightarrow> Inl (UnmarshalTypeError (kind_of v)))"

fun unmarshal_fields ::
  "(string \<Rightarrow> json \<Rightarrow> 'a \<Rightarrow> error + 'a) \<Rightarrow> (string \<times> json) list \<Rightarrow> 'a \<Rightarrow> error + 'a" where
  "unmarshal_fields f [] x = Inr x"
| "unmarshal_fields f ((k, v) # kvs) x =
     (case f (fold_key k) v x of
        Inl e \<Rightarrow> Inl e
      | Inr x' \<Rightarrow> unmarshal_fields f kvs x')"

definition unmarshal_struct ::
  "(string \<Rightarrow> json \<Rightarrow> 'a \<Rightarrow> error + 'a) \<Rightarrow> json \<Rightarrow> 'a \<Rightarrow> error + 'a" where
  "unmarshal_struct f v x =
     (case v of
        JObject kvs \<Rightarrow> unmarshal_fields f kvs x
      | JNull \<Rightarrow> Inr x
      | _ \<Rightarrow> Inl (UnmarshalTypeError (kind_of v)))"

definition RadiusAttribute_field ::
  "string \<Rightarrow> json \<Rightarrow> RadiusAttribute \<Rightarrow> error + RadiusAttribute" where
  "RadiusAttribute_field k v a =
     (if k = ''name'' then then_set (unmarshal_string v (Name a)) (\<lambda>s. a\<lparr>Name := s\<rparr>)
      else if k = ''value'' then
        then_set (unmarshal_slice unmarshal_string [] v (Value a)) (\<lambda>xs. a\<lparr>Value := xs\<rparr>)
      else if k = ''op'' then then_set (unmarshal_string v (OP a)) (\<lambda>s. a\<lparr>OP := s\<rparr>)
      else if k = ''expand'' then then_set (unmarshal_bool v (Expand a)) (\<lambda>b. a\<lparr>Expand := b\<rparr>)
      else if k = ''do_xlat'' then then_set (unmarshal_bool v (DoXlat a)) (\<lambda>b. a\<lparr>DoXlat := b\<rparr>)
      else if k = ''is_json'' then then_set (unmarshal_bool v (IsJson a)) (\<lambda>b. a\<lparr>IsJson := b\<rparr>)
      else Inr a)"

definition unmarshal_RadiusAttributes ::
  "json \<Rightarrow> RadiusAttribute slice \<Rightarrow> error + RadiusAttribute slice" where
  "unmarshal_RadiusAttributes v cur =
     unmarshal_slice (unmarshal_struct RadiusAttribute_field) zero_RadiusAttribute v cur"

definition RadiusProfileAttributes_field ::
  "string \<Rightarrow> json \<Rightarrow> RadiusProfileAttributes \<Rightarrow> error + RadiusProfileAttributes" where
  "RadiusProfileAttributes_field k v r =
     (if k = ''reply'' then
        then_set (unmarshal_RadiusAttributes v (Reply r)) (\<lambda>xs. r\<lparr>Reply := xs\<rparr>)
      else if k = ''control'' then
        then_set (unmarshal_RadiusAttributes v (Control r)) (\<lambda>xs. r\<lparr>Control := xs\<rparr>)
      else Inr r)"

definition RadiusProfile_field ::
  "string \<Rightarrow> json \<Rightarrow> RadiusProfile \<Rightarrow> error + RadiusProfile" where
  "RadiusProfile_field k v p =
     (if k = ''id'' then then_set (unmarshal_string v (ID p)) (\<lambda>s. p\<lparr>ID := s\<rparr>)
      else if k = ''state'' then then_set (unmarshal_string v (State p)) (\<lambda>s. p\<lparr>State := s\<rparr>)
      else if k = ''weight'' then then_set (unmarshal_int v (Weight p)) (\<lambda>n. p\<lparr>Weight := n\<rparr>)
      else if k = ''depends'' then
        then_set (unmarshal_slice unmarshal_string [] v (Depends p)) (\<lambda>xs. p\<lparr>Depends := xs\<rparr>)
      else if k = ''description'' then
        then_set (unmarshal_string v (Description p)) (\<lambda>s. p\<lparr>Description := s\<rparr>)
      else if k = ''radius'' then
        then_set (unmarshal_struct RadiusProfileAttributes_field v (Radius p))
          (\<lambda>r. p\<lparr>Radius := r\<rparr>)
      else if k = ''parameter_schema'' then
        Inr (p\<lparr>Schema := (case v of JNull \<Rightarrow> None | _ \<Rightarrow> Some v)\<rparr>)
      else Inr p)"

text \<open>\<open>json.Unmarshal([]byte(data), &res)\<close> for \<open>res\<close> of type \<open>RadiusProfile\<close>.\<close>

definition Unmarshal :: "body \<Rightarrow> RadiusProfile \<Rightarrow> error + RadiusProfile" where
  "Unmarshal data res =
     (case data of
        NotJson s \<Rightarrow> Inl SyntaxError
      | Doc v \<Rightarrow> unmarshal_struct RadiusProfile_field v res)"

section \<open>The API client and the resource data\<close>

text \<open>
  \<open>sendRequest\<close> of the API client (\<open>api_client.go\<close>) is not among the sources;
  \<open>getProfile\<close> calls it as \<open>status, data, err := api.sendRequest("GET", path, "")\<close>.
  What the remote end answers is a parameter of the client, \<open>remote\<close>: an error, or a
  status with a body, for each method, path and request data. Section 4.3 of the spec
  gives the transport the same shape,
  \<open>send(method, path, body) \<rightarrow> (status_code, response_body) | TransportError\<close>.
  \<open>requests\<close> records what was sent, oldest first.
\<close>

record APIClient =
  remote :: "string \<Rightarrow> string \<Rightarrow> string \<Rightarrow> error + (int \<times> body)"
  requests :: "(string \<times> string \<times> string) list"

definition sendRequest ::
  "APIClient \<Rightarrow> string \<Rightarrow> string \<Rightarrow> string \<Rightarrow> (error + (int \<times> body)) \<times> APIClient" where
  "sendRequest client method path data =
     (remote client method path data,
      client\<lparr>requests := requests client @ [(method, path, data)]\<rparr>)"

text \<open>
  \<open>schema.ResourceData\<close> for the schema of \<open>resourceProfile\<close>: the tracked id
  (\<open>d.Id()\<close>, \<open>d.SetId\<close>) and one field for each key (\<open>d.Get\<close>, \<open>d.Set\<close>). An element
  of \<open>reply\<close> and \<open>control\<close> is a map with the keys of \<open>radiusAttribute\<close>.
\<close>

record attribute_data =
  attr_name :: string
  attr_value :: "string list"
  attr_op :: string
  attr_expand :: bool
  attr_do_xlat :: bool
  attr_is_json :: bool

record ResourceData =
  rd_id :: string
  operator_id :: string
  profile_id :: string
  enabled :: bool
  weight :: go_int
  depends :: "string list"
  description :: string
  parameter_schema :: body
  reply :: "attribute_data list"
  control :: "attribute_data list"

definition SetId :: "string \<Rightarrow> ResourceData \<Rightarrow> ResourceData" where
  "SetId v d = d\<lparr>rd_id := v\<rparr>"

text \<open>\<open>d.Get(v + ".#")\<close> and \<open>d.Get(prefix + ...)\<close> for the two attribute lists.\<close>

definition attribute_list :: "ResourceData \<Rightarrow> string \<Rightarrow> attribute_data list" where
  "attribute_list d v = (if v = ''reply'' then reply d else if v = ''control'' then control d else [])"

section \<open>\<open>resource_profile.go\<close>\<close>

text \<open>The inner loops of \<open>buildProfileObject\<close>: a slice made with the counted
  length (and no cell to spare) is filled index by index.\<close>

definition build_attribute :: "attribute_data \<Rightarrow> RadiusAttribute" where
  "build_attribute t =
     (let attr = \<lparr>Name = attr_name t, Value = Slice [] [], OP = attr_op t,
                  Expand = attr_expand t,
                  DoXlat = attr_do_xlat t, IsJson = attr_is_json t\<rparr>;
          countValues = length (attr_value t);
          values = Slice (map (\<lambda>j. attr_value t ! j) [0..<countValues]) []
      in attr\<lparr>Value := values\<rparr>)"

definition build_attributes :: "ResourceData \<Rightarrow> string \<Rightarrow> RadiusAttribute slice" where
  "build_attributes d v =
     (let count = length (attribute_list d v)
      in Slice (map (\<lambda>i. build_attribute (attribute_list d v ! i)) [0..<count]) [])"

definition buildProfileObject ::
  "ResourceData \<Rightarrow> APIClient \<Rightarrow> (error + RadiusProfile) \<times> ResourceData" where
  "buildProfileObject d api =
     (let itm = zero_RadiusProfile
            \<lparr>ID := profile_id d, Weight := weight d, Description := description d\<rparr>;
          itm = (if enabled d then itm\<lparr>State := ''enabled''\<rparr> else itm\<lparr>State := ''disabled''\<rparr>);
          d' = SetId (operator_id d @ ''/'' @ ID itm) d;
          dependsCount = length (depends d');
          itm = itm\<lparr>Depends := Slice (map (\<lambda>i. depends d' ! i) [0..<dependsCount]) []\<rparr>;
          pa = fold (\<lambda>v pa.
                  if v = ''reply'' then pa\<lparr>Reply := build_attributes d' v\<rparr>
                  else pa\<lparr>Control := build_attributes d' v\<rparr>)
                [''reply'', ''control''] zero_RadiusProfileAttributes;
          itm = itm\<lparr>Radius := pa\<rparr>
      in (Inr itm, d'))"

definition getProfile ::
  "APIClient \<Rightarrow> string \<Rightarrow> string \<Rightarrow> (error + RadiusProfile option) \<times> APIClient" where
  "getProfile api operator_id' id' =
     (let path = ''/operator/'' @ operator_id' @ ''/profile/'' @ id'
      in case sendRequest api ''GET'' path '''' of
           (Inl err, api') \<Rightarrow> (Inl err, api')
         | (Inr (status, data), api') \<Rightarrow>
             if status = 404 then (Inr None, api')
             else (case Unmarshal data zero_RadiusProfile of
                     Inl err \<Rightarrow> (Inl err, api')
                   | Inr res \<Rightarrow> (Inr (Some res), api')))"

definition read_attribute :: "RadiusAttribute \<Rightarrow> attribute_data" where
  "read_attribute c =
     \<lparr>attr_name = Name c, attr_value = map (\<lambda>vv. vv) (elems (Value c)), attr_op = OP c,
      attr_expand = Expand c, attr_do_xlat = DoXlat c, attr_is_json = IsJson c\<rparr>"

definition set_profile :: "RadiusProfile \<Rightarrow> ResourceData \<Rightarrow> ResourceData" where
  "set_profile obj d =
     d\<lparr>profile_id := ID obj,
       enabled := (State obj = ''enabled''),
       weight := Weight obj,
       description := Description obj,
       depends := map (\<lambda>v. v) (elems (Depends obj)),
       reply := map read_attribute (elems (Reply (Radius obj))),
       control := map read_attribute (elems (Control (Radius obj)))\<rparr>"

definition resourceProfileRead ::
  "ResourceData \<Rightarrow> APIClient \<Rightarrow> (error + unit) \<times> ResourceData \<times> APIClient" where
  "resourceProfileRead d api =
     (case getProfile api (operator_id d) (profile_id d) of
        (Inl err, api') \<Rightarrow> (Inl err, d, api')
      | (Inr None, api') \<Rightarrow> (Inr (), SetId '''' d, api')
      | (Inr (Some obj), api') \<Rightarrow> (Inr (), set_profile obj d, api'))"

definition resourceProfileCreate ::
  "ResourceData \<Rightarrow> APIClient \<Rightarrow> (error + unit) \<times> ResourceData \<times> APIClient" where
  "resourceProfileCreate d api =
     (case buildProfileObject d api of
        (Inl err, d') \<Rightarrow> (Inl err, d', api)
      | (Inr itm, d') \<Rightarrow> resourceProfileRead d' api)"

definition resourceProfileUpdate ::
  "ResourceData \<Rightarrow> APIClient \<Rightarrow> (error + unit) \<times> ResourceData \<times> APIClient" where
  "resourceProfileUpdate d api = (Inr (), d, api)"

definition resourceProfileDelete ::
  "ResourceData \<Rightarrow> APIClient \<Rightarrow> (error + unit) \<times> ResourceData \<times> APIClient" where
  "resourceProfileDelete d api = (Inr (), d, api)"

section \<open>The schema of \<open>resourceProfile\<close> and its validation\<close>

text \<open>
  The configuration of one \<open>radius_profile\<close> resource as the schema declares it:
  a \<open>Required\<close> argument is present, an \<open>Optional\<close> one may be unset. The text of
  \<open>parameter_schema\<close> is a \<^typ>\<open>body\<close>: JSON or not.
\<close>

record attribute_config =
  cfg_name :: string
  cfg_value :: "string list"
  cfg_op :: "string option"
  cfg_expand :: "bool option"
  cfg_do_xlat :: "bool option"
  cfg_is_json :: "bool option"

record profile_config =
  cfg_operator_id :: string
  cfg_profile_id :: string
  cfg_enabled :: "bool option"
  cfg_weight :: "go_int option"
  cfg_depends :: "string list"
  cfg_description :: "string option"
  cfg_parameter_schema :: "body option"
  cfg_reply :: "attribute_config list"
  cfg_control :: "attribute_config list"

text \<open>
  The \<open>ValidateFunc\<close>s of the schema. \<open>validation.StringMatch\<close> with
  \<open>^[0-9a-z_]{3,32}$\<close> (Go's \<open>$\<close> is the end of the text): three to thirty-two
  characters, each a digit, a lower-case letter or an underscore.
\<close>

definition is_digit :: "char \<Rightarrow> bool" where
  "is_digit c = (c \<in> set ''0123456789'')"

definition is_lower :: "char \<Rightarrow> bool" where
  "is_lower c = (c \<in> set ''abcdefghijklmnopqrstuvwxyz'')"

definition is_upper :: "char \<Rightarrow> bool" where
  "is_upper c = (c \<in> set ''ABCDEFGHIJKLMNOPQRSTUVWXYZ'')"

definition match_profile_id :: "string \<Rightarrow> bool" where
  "match_profile_id s =
     (3 \<le> length s \<and> length s \<le> 32 \<and>
      list_all (\<lambda>c. is_digit c \<or> is_lower c \<or> c = CHR ''_'') s)"

text \<open>The pattern of the description: an alphanumeric character, one to 512
  characters that are alphanumeric or one of \<open>, . _ - '\<close> and the space, and an
  alphanumeric character or a full stop.\<close>

definition match_description :: "string \<Rightarrow> bool" where
  "match_description s =
     (3 \<le> length s \<and> length s \<le> 514 \<and>
      (let alnum = (\<lambda>c. is_digit c \<or> is_lower c \<or> is_upper c)
       in alnum (hd s) \<and>
          list_all (\<lambda>c. alnum c \<or> c \<in> set [CHR '','', CHR ''.'', CHR ''_'', CHR ''-'', CHR 0x27, CHR '' ''])
            (butlast (tl s)) \<and>
          (alnum (last s) \<or> last s = CHR ''.'')))"

text \<open>\<open>validation.StringIsNotWhiteSpace\<close>: \<open>strings.TrimSpace(v) != ""\<close>.
  \<open>TrimSpace\<close> trims the characters of \<open>unicode.IsSpace\<close>, here in UTF-8: tab to
  carriage return, space, U+0085, U+00A0, U+1680, U+2000 to U+200A, U+2028, U+2029,
  U+202F, U+205F and U+3000. A text is trimmed to nothing when it reads, character by
  character, as white space only; \<open>all_space_from\<close> holds the bytes of a character
  begun and not yet complete.\<close>

definition space_runes :: "string list" where
  "space_runes =
     [[CHR 0x09], [CHR 0x0A], [CHR 0x0B], [CHR 0x0C], [CHR 0x0D], [CHR 0x20],
      [CHR 0xC2, CHR 0x85], [CHR 0xC2, CHR 0xA0], [CHR 0xE1, CHR 0x9A, CHR 0x80],
      [CHR 0xE2, CHR 0x80, CHR 0x80], [CHR 0xE2, CHR 0x80, CHR 0x81],
      [CHR 0xE2, CHR 0x80, CHR 0x82], [CHR 0xE2, CHR 0x80, CHR 0x83],
      [CHR 0xE2, CHR 0x80, CHR 0x84], [CHR 0xE2, CHR 0x80, CHR 0x85],
      [CHR 0xE2, CHR 0x80, CHR 0x86], [CHR 0xE2, CHR 0x80, CHR 0x87],
      [CHR 0xE2, CHR 0x80, CHR 0x88], [CHR 0xE2, CHR 0x80, CHR 0x89],
      [CHR 0xE2, CHR 0x80, CHR 0x8A], [CHR 0xE2, CHR 0x80, CHR 0xA8],
      [CHR 0xE2, CHR 0x80, CHR 0xA9], [CHR 0xE2, CHR 0x80, CHR 0xAF],
      [CHR 0xE2, CHR 0x81, CHR 0x9F], [CHR 0xE3, CHR 0x80, CHR 0x80]]"

fun all_space_from :: "string \<Rightarrow> string \<Rightarrow> bool" where
  "all_space_from begun [] = (begun = [])"
| "all_space_from begun (c # cs) =
     (if begun @ [c] \<in> set space_runes then all_space_from [] cs
      else if list_ex (\<lambda>w. take (length (begun @ [c])) w = begun @ [c]) space_runes
        then all_space_from (begun @ [c]) cs
      else False)"

definition StringIsNotWhiteSpace :: "string \<Rightarrow> bool" where
  "StringIsNotWhiteSpace s = (\<not> all_space_from [] s)"

definition IntBetween :: "int \<Rightarrow> int \<Rightarrow> go_int \<Rightarrow> bool" where
  "IntBetween lo hi v = (\<not> (sint v < lo \<or> sint v > hi))"

definition StringInSlice :: "string list \<Rightarrow> string \<Rightarrow> bool" where
  "StringInSlice valid v = (v \<in> set valid)"

text \<open>\<open>validation.StringIsJSON\<close> accepts the empty string and every JSON text.\<close>

definition StringIsJSON :: "body \<Rightarrow> bool" where
  "StringIsJSON v = (case v of Doc j \<Rightarrow> True | NotJson s \<Rightarrow> s = [])"

definition op_values :: "string list" where
  "op_values = [''='', '':='', ''+='', ''|='', ''|:='', ''|+='', ''|--'']"

text \<open>A \<open>ValidateFunc\<close> runs on an argument that is set; its error names the key.\<close>

definition check :: "string \<Rightarrow> bool \<Rightarrow> error list" where
  "check k ok = (if ok then [] else [ValidationError k])"

definition check_set :: "string \<Rightarrow> ('a \<Rightarrow> bool) \<Rightarrow> 'a option \<Rightarrow> error list" where
  "check_set k f v = (case v of None \<Rightarrow> [] | Some x \<Rightarrow> check k (f x))"

definition validate_radiusAttribute :: "attribute_config \<Rightarrow> error list" where
  "validate_radiusAttribute a =
     check ''name'' (StringIsNotWhiteSpace (cfg_name a))
     @ check_set ''op'' (StringInSlice op_values) (cfg_op a)"

definition validate_resourceProfile :: "profile_config \<Rightarrow> error list" where
  "validate_resourceProfile c =
     check ''operator_id'' (StringIsNotWhiteSpace (cfg_operator_id c))
     @ check ''profile_id'' (match_profile_id (cfg_profile_id c))
     @ check_set ''weight'' (IntBetween 1 100000) (cfg_weight c)
     @ concat (map (\<lambda>v. check ''depends'' (match_profile_id v)) (cfg_depends c))
     @ check_set ''description'' match_description (cfg_description c)
     @ check_set ''parameter_schema'' StringIsJSON (cfg_parameter_schema c)
     @ concat (map validate_radiusAttribute (cfg_reply c))
     @ concat (map validate_radiusAttribute (cfg_control c))"

text \<open>The \<open>Default\<close>s of the schema, and the zero value where it declares none.\<close>

definition default_to :: "'a \<Rightarrow> 'a option \<Rightarrow> 'a" where
  "default_to dflt v = (case v of None \<Rightarrow> dflt | Some x \<Rightarrow> x)"

definition attribute_defaults :: "attribute_config \<Rightarrow> attribute_data" where
  "attribute_defaults a =
     \<lparr>attr_name = cfg_name a, attr_value = cfg_value a,
      attr_op = default_to '':='' (cfg_op a),
      attr_expand = default_to False (cfg_expand a),
      attr_do_xlat = default_to False (cfg_do_xlat a),
      attr_is_json = default_to False (cfg_is_json a)\<rparr>"

definition resource_data :: "profile_config \<Rightarrow> ResourceData" where
  "resource_data c =
     \<lparr>rd_id = [],
      operator_id = cfg_operator_id c,
      profile_id = cfg_profile_id c,
      enabled = default_to True (cfg_enabled c),
      weight = default_to 100 (cfg_weight c),
      depends = cfg_depends c,
      description = default_to [] (cfg_description c),
      parameter_schema = default_to (NotJson []) (cfg_parameter_schema c),
      reply = map attribute_defaults (cfg_reply c),
      control = map attribute_defaults (cfg_control c)\<rparr>"

text \<open>
  Terraform validates a configuration against the schema before it plans and applies:
  \<open>Create\<close> runs only on a configuration without a validation error. The result is
  the errors (none on success), the resource data \<open>Create\<close> left, and the client.
\<close>

definition apply_create ::
  "profile_config \<Rightarrow> APIClient \<Rightarrow> error list \<times> ResourceData option \<times> APIClient" where
  "apply_create c api =
     (case validate_resourceProfile c of
        [] \<Rightarrow>
          (case resourceProfileCreate (resource_data c) api of
             (Inl err, d, api') \<Rightarrow> ([err], Some d, api')
           | (Inr u, d, api') \<Rightarrow> ([], Some d, api'))
      | e # es \<Rightarrow> (e # es, None, api))"

definition is_ValidationError :: "error \<Rightarrow> bool" where
  "is_ValidationError e = (case e of ValidationError k \<Rightarrow> True | _ \<Rightarrow> False)"

section \<open>The Token Manager\<close>





section \<open>Concrete inputs\<close>

text \<open>
  A resource as Terraform holds it after a successful apply, with the payload
  \<open>buildProfileObject\<close> builds from it; a client whose remote end gives one fixed
  answer to every request; the document of a profile \<open>abc\<close> that a remote end holds
  from earlier, disabled and of weight 7; the configuration of the spec's scenario
  (profile \<open>abc\<close>, weight 50, enabled) with a remote end that holds no profile yet (it
  would answer a POST with 201, anything else with 404); an attribute with the operator
  \<open>bogus\<close>; a token endpoint that grants one-hour tokens, one that grants tokens of
  lifetime zero, and a manager whose cached token expires at time 1000.
\<close>

definition example_data :: ResourceData where
  "example_data =
     \<lparr>rd_id = ''op1/abc'', operator_id = ''op1'', profile_id = ''abc'', enabled = True,
      weight = 50, depends = [''base''], description = ''Demo profile.'',
      parameter_schema = NotJson [],
      reply =
        [\<lparr>attr_name = ''Framed-IP-Address'', attr_value = [''10.0.0.1''], attr_op = '':='',
          attr_expand = False, attr_do_xlat = False, attr_is_json = False\<rparr>,
         \<lparr>attr_name = ''Class'', attr_value = [''a'', ''b''], attr_op = ''+='',
          attr_expand = True, attr_do_xlat = False, attr_is_json = False\<rparr>],
      control =
        [\<lparr>attr_name = ''Auth-Type'', attr_value = [''Accept''], attr_op = '':='',
          attr_expand = False, attr_do_xlat = True, attr_is_json = False\<rparr>]\<rparr>"

definition example_payload :: RadiusProfile where
  "example_payload =
     \<lparr>ID = ''abc'', State = ''enabled'', Weight = 50, Depends = Slice [''base''] [],
      Description = ''Demo profile.'',
      Radius =
        \<lparr>Reply = Slice
           [\<lparr>Name = ''Framed-IP-Address'', Value = Slice [''10.0.0.1''] [], OP = '':='',
             Expand = False, DoXlat = False, IsJson = False\<rparr>,
            \<lparr>Name = ''Class'', Value = Slice [''a'', ''b''] [], OP = ''+='',
             Expand = True, DoXlat = False, IsJson = False\<rparr>] [],
         Control = Slice
           [\<lparr>Name = ''Auth-Type'', Value = Slice [''Accept''] [], OP = '':='',
             Expand = False, DoXlat = True, IsJson = False\<rparr>] []\<rparr>,
      Schema = None\<rparr>"

definition stale_document :: json where
  "stale_document =
     JObject
       [(''id'', JString ''abc''), (''state'', JString ''disabled''), (''weight'', JInt 7),
        (''radius'', JObject [])]"

definition answering :: "error + (int \<times> body) \<Rightarrow> APIClient" where
  "answering r = \<lparr>remote = (\<lambda>method path data. r), requests = []\<rparr>"

definition example_config :: profile_config where
  "example_config =
     \<lparr>cfg_operator_id = ''op1'', cfg_profile_id = ''abc'', cfg_enabled = Some True,
      cfg_weight = Some 50, cfg_depends = [], cfg_description = None,
      cfg_parameter_schema = None, cfg_reply = [], cfg_control = []\<rparr>"

definition fresh_remote :: APIClient where
  "fresh_remote =
     \<lparr>remote = (\<lambda>method path data.
         if method = ''POST'' then Inr (201, Doc (JObject [(''id'', JString ''abc'')]))
         else Inr (404, NotJson ''not found'')),
      requests = []\<rparr>"

definition bogus_attribute :: attribute_config where
  "bogus_attribute =
     \<lparr>cfg_name = ''Class'', cfg_value = [''x''], cfg_op = Some ''bogus'', cfg_expand = None,
      cfg_do_xlat = None, cfg_is_json = None\<rparr>"




section \<open>Properties\<close>

subsection \<open>Decoding the members of a document\<close>

lemma fold_key_lits:
  "fold_key ''id'' = ''id''" "fold_key ''state'' = ''state''" "fold_key ''weight'' = ''weight''"
  "fold_key ''depends'' = ''depends''" "fold_key ''description'' = ''description''"
  "fold_key ''radius'' = ''radius''" "fold_key ''parameter_schema'' = ''parameter_schema''"
  "fold_key ''reply'' = ''reply''" "fold_key ''control'' = ''control''"
  "fold_key ''name'' = ''name''" "fold_key ''value'' = ''value''" "fold_key ''op'' = ''op''"
  "fold_key ''expand'' = ''expand''" "fold_key ''do_xlat'' = ''do_xlat''"
  "fold_key ''is_json'' = ''is_json''" "fold_key ''error'' = ''error''"
  by (simp_all add: lower_char_def)

declare fold_key.simps [simp del]

lemma then_set_simps:
  "then_set (Inr x) f = Inr (f x)" "then_set (Inl e) f = Inl e"
  by (simp_all add: then_set_def)

lemma unmarshal_scalar_simps:
  "unmarshal_string (JString s) cur = Inr s"
  "unmarshal_bool (JBool b) bcur = Inr b"
  "unmarshal_struct g (JObject kvs) x = unmarshal_fields g kvs x"
  by (simp_all add: unmarshal_string_def unmarshal_bool_def unmarshal_struct_def)

subsection \<open>What the functions of \<open>resource_profile.go\<close> compute\<close>

lemma map_index_id: "map (\<lambda>i. xs ! i) [0..<length xs] = xs"
  by (rule map_nth)

lemma map_index: "map (\<lambda>i. f (xs ! i)) [0..<length xs] = map f xs"
proof -
  have "map (\<lambda>i. f (xs ! i)) [0..<length xs] = map f (map (\<lambda>i. xs ! i) [0..<length xs])"
    by (simp only: map_map o_def)
  then show ?thesis by (simp only: map_index_id)
qed

lemma build_attribute_eq:
  "build_attribute t =
     \<lparr>Name = attr_name t, Value = Slice (attr_value t) [], OP = attr_op t,
      Expand = attr_expand t, DoXlat = attr_do_xlat t, IsJson = attr_is_json t\<rparr>"
  by (simp add: build_attribute_def Let_def map_index_id)

lemma build_attributes_eq:
  "build_attributes d ''reply'' = Slice (map build_attribute (reply d)) []"
  "build_attributes d ''control'' = Slice (map build_attribute (control d)) []"
  by (simp_all add: build_attributes_def attribute_list_def Let_def map_index)

lemma buildProfileObject_eq:
  "buildProfileObject d api =
     (Inr \<lparr>ID = profile_id d,
           State = (if enabled d then ''enabled'' else ''disabled''),
           Weight = weight d, Depends = Slice (depends d) [], Description = description d,
           Radius = \<lparr>Reply = Slice (map build_attribute (reply d)) [],
                     Control = Slice (map build_attribute (control d)) []\<rparr>,
           Schema = None\<rparr>,
      d\<lparr>rd_id := operator_id d @ ''/'' @ profile_id d\<rparr>)"
  by (simp add: buildProfileObject_def Let_def SetId_def zero_RadiusProfile_def
      zero_RadiusProfileAttributes_def map_index_id build_attributes_eq)

lemma getProfile_error:
  "remote api ''GET'' (''/operator/'' @ op @ ''/profile/'' @ i) [] = Inl e \<Longrightarrow>
   getProfile api op i =
     (Inl e,
      api\<lparr>requests := requests api @ [(''GET'', ''/operator/'' @ op @ ''/profile/'' @ i, [])]\<rparr>)"
  by (simp add: getProfile_def sendRequest_def)

lemma getProfile_404:
  "remote api ''GET'' (''/operator/'' @ op @ ''/profile/'' @ i) [] = Inr (404, data) \<Longrightarrow>
   getProfile api op i =
     (Inr None,
      api\<lparr>requests := requests api @ [(''GET'', ''/operator/'' @ op @ ''/profile/'' @ i, [])]\<rparr>)"
  by (simp add: getProfile_def sendRequest_def)

lemma getProfile_body:
  "remote api ''GET'' (''/operator/'' @ op @ ''/profile/'' @ i) [] = Inr (status, data) \<Longrightarrow>
   status \<noteq> 404 \<Longrightarrow>
   getProfile api op i =
     (case Unmarshal data zero_RadiusProfile of Inl e \<Rightarrow> Inl e | Inr res \<Rightarrow> Inr (Some res),
      api\<lparr>requests := requests api @ [(''GET'', ''/operator/'' @ op @ ''/profile/'' @ i, [])]\<rparr>)"
  by (simp add: getProfile_def sendRequest_def split: sum.splits)



lemma example_data_ids:
  "operator_id example_data = ''op1''" "profile_id example_data = ''abc''"
  "example_data\<lparr>rd_id := ''op1/abc''\<rparr> = example_data"
  by (simp_all add: example_data_def)

lemma build_example:
  "fst (buildProfileObject example_data api) = Inr example_payload"
  by (simp add: buildProfileObject_eq example_data_def example_payload_def build_attribute_eq)

subsection \<open>What the validation of the schema returns\<close>

lemma check_ValidationErrors: "list_all is_ValidationError (check k ok)"
  by (simp add: check_def is_ValidationError_def)

lemma check_set_ValidationErrors: "list_all is_ValidationError (check_set k f v)"
  by (cases v) (simp_all add: check_set_def check_ValidationErrors)

lemma validate_radiusAttribute_ValidationErrors:
  "list_all is_ValidationError (validate_radiusAttribute a)"
  by (simp add: validate_radiusAttribute_def check_ValidationErrors check_set_ValidationErrors)

lemma concat_ValidationErrors:
  "(\<And>x. list_all is_ValidationError (f x)) \<Longrightarrow> list_all is_ValidationError (concat (map f xs))"
  by (induction xs) simp_all

lemma validate_resourceProfile_ValidationErrors:
  "list_all is_ValidationError (validate_resourceProfile c)"
  by (simp add: validate_resourceProfile_def check_ValidationErrors check_set_ValidationErrors
      concat_ValidationErrors validate_radiusAttribute_ValidationErrors)

lemma bad_op_rejected_one:
  "cfg_op a = Some v \<Longrightarrow> v \<notin> set op_values \<Longrightarrow> validate_radiusAttribute a \<noteq> []"
  by (simp add: validate_radiusAttribute_def check_set_def check_def StringInSlice_def)

lemma bad_op_rejected:
  assumes "a \<in> set xs" and "cfg_op a = Some v" and "v \<notin> set op_values"
  shows "concat (map validate_radiusAttribute xs) \<noteq> []"
proof -
  from assms(2,3) have "validate_radiusAttribute a \<noteq> []" by (rule bad_op_rejected_one)
  with assms(1) show ?thesis by auto
qed

lemma apply_create_invalid:
  "validate_resourceProfile c \<noteq> [] \<Longrightarrow>
   apply_create c api = (validate_resourceProfile c, None, api)"
  by (cases "validate_resourceProfile c") (simp_all add: apply_create_def)

lemma example_config_valid: "validate_resourceProfile example_config = []"
  by (simp add: validate_resourceProfile_def example_config_def check_def check_set_def
      StringIsNotWhiteSpace_def space_runes_def match_profile_id_def is_digit_def is_lower_def IntBetween_def)

subsection \<open>The claims\<close>

text \<open>
  C1, as the code has it. A read answered with status 404 is the absent outcome and not
  an error: \<open>getProfile\<close> returns neither an object nor an error, and
  \<open>resourceProfileRead\<close> clears the tracked id and returns success. A read whose
  transport reports an error fails with that error. (The claim's other half, that every
  other status outside 2xx fails the read, does not hold: see the counterexample.)
\<close>

theorem read_404_is_absent:
  "(remote api ''GET'' (''/operator/'' @ operator_id d @ ''/profile/'' @ profile_id d) []
      = Inr (404, data) \<longrightarrow>
    fst (getProfile api (operator_id d) (profile_id d)) = Inr None \<and>
    resourceProfileRead d api =
      (Inr (), d\<lparr>rd_id := []\<rparr>,
       api\<lparr>requests := requests api @
         [(''GET'', ''/operator/'' @ operator_id d @ ''/profile/'' @ profile_id d, [])]\<rparr>)) \<and>
   (remote api ''GET'' (''/operator/'' @ operator_id d @ ''/profile/'' @ profile_id d) []
      = Inl e \<longrightarrow>
    fst (getProfile api (operator_id d) (profile_id d)) = Inl e \<and>
    fst (resourceProfileRead d api) = Inl e)"
proof (intro conjI impI)
  assume gone: "remote api ''GET'' (''/operator/'' @ operator_id d @ ''/profile/'' @ profile_id d) []
      = Inr (404, data)"
  then show "fst (getProfile api (operator_id d) (profile_id d)) = Inr None"
    by (simp add: getProfile_404)
  from gone show "resourceProfileRead d api =
      (Inr (), d\<lparr>rd_id := []\<rparr>,
       api\<lparr>requests := requests api @
         [(''GET'', ''/operator/'' @ operator_id d @ ''/profile/'' @ profile_id d, [])]\<rparr>)"
    by (simp add: resourceProfileRead_def getProfile_404 SetId_def)
next
  assume failed: "remote api ''GET'' (''/operator/'' @ operator_id d @ ''/profile/'' @ profile_id d) []
      = Inl e"
  then show "fst (getProfile api (operator_id d) (profile_id d)) = Inl e"
    by (simp add: getProfile_error)
  from failed show "fst (resourceProfileRead d api) = Inl e"
    by (simp add: resourceProfileRead_def getProfile_error)
qed

text \<open>
  The theorem at work: a 404 clears the id of the example resource, a timeout fails
  its read.
\<close>

theorem read_404_is_absent_witness:
  "fst (getProfile (answering (Inr (404, NotJson ''not found''))) ''op1'' ''abc'') = Inr None \<and>
   resourceProfileRead example_data (answering (Inr (404, NotJson ''not found''))) =
     (Inr (), example_data\<lparr>rd_id := []\<rparr>,
      answering (Inr (404, NotJson ''not found''))
        \<lparr>requests := [(''GET'', ''/operator/op1/profile/abc'', [])]\<rparr>) \<and>
   fst (resourceProfileRead example_data (answering (Inl (TransportError ''timeout''))))
     = Inl (TransportError ''timeout'')"
proof -
  have gone: "remote (answering (Inr (404, NotJson ''not found''))) ''GET''
      (''/operator/'' @ operator_id example_data @ ''/profile/'' @ profile_id example_data) []
      = Inr (404, NotJson ''not found'')"
    by (simp add: answering_def)
  have failed: "remote (answering (Inl (TransportError ''timeout''))) ''GET''
      (''/operator/'' @ operator_id example_data @ ''/profile/'' @ profile_id example_data) []
      = Inl (TransportError ''timeout'')"
    by (simp add: answering_def)
  show ?thesis
    using read_404_is_absent [of "answering (Inr (404, NotJson ''not found''))" example_data
        "NotJson ''not found''" "TransportError ''timeout''"]
      read_404_is_absent [of "answering (Inl (TransportError ''timeout''))" example_data
        "NotJson ''not found''" "TransportError ''timeout''"]
      gone failed
    by (simp add: example_data_ids answering_def)
qed

text \<open>
  C1 as stated fails: \<open>getProfile\<close> tests the status against 404 only. Here the
  remote end answers the read of \<open>/operator/op1/profile/abc\<close> with status 500 and the
  body \<open>{"error": "internal"}\<close>, and the transport hands both over without an
  error. The read returns success and overwrites the profile id, the enabled flag, the
  weight, the description and the lists with the zero values decoded from that body.
\<close>

theorem read_500_succeeds:
  "(500::int) \<noteq> 404 \<and> \<not> (200 \<le> (500::int) \<and> (500::int) < 300) \<and>
   resourceProfileRead example_data
     (answering (Inr (500, Doc (JObject [(''error'', JString ''internal'')])))) =
   (Inr (),
    example_data\<lparr>profile_id := [], enabled := False, weight := 0, description := [],
      depends := [], reply := [], control := []\<rparr>,
    answering (Inr (500, Doc (JObject [(''error'', JString ''internal'')])))
      \<lparr>requests := [(''GET'', ''/operator/op1/profile/abc'', [])]\<rparr>)"
  by (simp add: resourceProfileRead_def getProfile_def sendRequest_def answering_def
      example_data_def Unmarshal_def unmarshal_scalar_simps fold_key_lits
      RadiusProfile_field_def zero_RadiusProfile_def zero_RadiusProfileAttributes_def
      set_profile_def)

text \<open>
  C2. \<open>resourceProfileDelete\<close> sends no request: with a remote end that would answer
  every request with status 500, the delete of the example resource returns success,
  and the list of requests sent stays empty.
\<close>

theorem delete_sends_nothing:
  "resourceProfileDelete example_data (answering (Inr (500, NotJson ''internal error''))) =
     (Inr (), example_data, answering (Inr (500, NotJson ''internal error''))) \<and>
   requests (snd (snd (resourceProfileDelete example_data
     (answering (Inr (500, NotJson ''internal error'')))))) = []"
  by (simp add: resourceProfileDelete_def answering_def)

text \<open>
  C3. \<open>resourceProfileCreate\<close> sends no POST. Applying the configuration of the
  scenario against a remote end that holds no profile sends one request, the GET of
  \<open>/operator/op1/profile/abc\<close>; it is answered with 404, so the create returns success
  with the tracked id cleared, and nothing was created.
\<close>

theorem create_sends_no_POST:
  "apply_create example_config fresh_remote =
     ([],
      Some \<lparr>rd_id = [], operator_id = ''op1'', profile_id = ''abc'', enabled = True,
            weight = 50, depends = [], description = [], parameter_schema = NotJson [],
            reply = [], control = []\<rparr>,
      fresh_remote\<lparr>requests := [(''GET'', ''/operator/op1/profile/abc'', [])]\<rparr>)"
proof -
  have d: "resource_data example_config =
      \<lparr>rd_id = [], operator_id = ''op1'', profile_id = ''abc'', enabled = True,
       weight = 50, depends = [], description = [], parameter_schema = NotJson [],
       reply = [], control = []\<rparr>"
    by (simp add: resource_data_def example_config_def default_to_def)
  have c: "resourceProfileCreate (resource_data example_config) fresh_remote =
      (Inr (), resource_data example_config,
       fresh_remote\<lparr>requests := [(''GET'', ''/operator/op1/profile/abc'', [])]\<rparr>)"
    unfolding d
    by (simp add: resourceProfileCreate_def buildProfileObject_eq resourceProfileRead_def
        getProfile_def sendRequest_def fresh_remote_def SetId_def)
  show ?thesis
    by (simp add: apply_create_def example_config_valid c) (simp add: d)
qed

text \<open>
  C4. Nothing of a resource reaches the remote end through a create, so what the read
  of a create writes back is what the remote end happened to hold. Here a resource of
  weight 50, enabled, with a description, a dependency and three attributes is created
  while the remote end holds an earlier profile \<open>abc\<close>, disabled and of weight 7: the
  one request is the GET, the create returns success with the tracked id set, and the
  resource now has weight 7, is disabled and has lost its description, its dependency
  and its attributes.
\<close>

theorem create_adopts_remote_fields:
  "weight example_data = 50 \<and> enabled example_data \<and>
   resourceProfileCreate (example_data\<lparr>rd_id := []\<rparr>)
     (answering (Inr (200, Doc stale_document))) =
   (Inr (),
    example_data\<lparr>enabled := False, weight := 7, description := [], depends := [],
      reply := [], control := []\<rparr>,
    answering (Inr (200, Doc stale_document))
      \<lparr>requests := [(''GET'', ''/operator/op1/profile/abc'', [])]\<rparr>)"
proof -
  have decode: "Unmarshal (Doc stale_document) zero_RadiusProfile =
      Inr (zero_RadiusProfile\<lparr>ID := ''abc'', State := ''disabled'', Weight := 7\<rparr>)"
    by (simp add: stale_document_def Unmarshal_def unmarshal_scalar_simps fold_key_lits
        RadiusProfile_field_def then_set_simps unmarshal_int_def zero_RadiusProfile_def
        zero_RadiusProfileAttributes_def RadiusProfileAttributes_field_def)
  have create: "resourceProfileCreate (example_data\<lparr>rd_id := []\<rparr>)
        (answering (Inr (200, Doc stale_document))) =
      resourceProfileRead example_data (answering (Inr (200, Doc stale_document)))"
    by (simp add: resourceProfileCreate_def buildProfileObject_eq example_data_def)
  have read: "resourceProfileRead example_data (answering (Inr (200, Doc stale_document))) =
      (Inr (),
       set_profile (zero_RadiusProfile\<lparr>ID := ''abc'', State := ''disabled'', Weight := 7\<rparr>)
         example_data,
       answering (Inr (200, Doc stale_document))
         \<lparr>requests := [(''GET'', ''/operator/op1/profile/abc'', [])]\<rparr>)"
    by (simp add: resourceProfileRead_def getProfile_def sendRequest_def answering_def
        decode example_data_ids)
  show ?thesis
    unfolding create read
    by (simp add: set_profile_def zero_RadiusProfile_def zero_RadiusProfileAttributes_def
        example_data_def)
qed

text \<open>
  C5. A configuration whose profile id does not match \<open>^[0-9a-z_]{3,32}$\<close>, whose
  weight is set outside 1..100000, or one of whose attributes sets an operator outside
  \<open>=\<close>, \<open>:=\<close>, \<open>+=\<close>, \<open>|=\<close>, \<open>|:=\<close>, \<open>|+=\<close>, \<open>|--\<close> is rejected
  with validation errors only, \<open>Create\<close> is not run and no request is sent; an
  attribute whose operator is unset gets \<open>:=\<close>.
\<close>

theorem validation_rejects:
  assumes "\<not> match_profile_id (cfg_profile_id c) \<or>
           (\<exists>w. cfg_weight c = Some w \<and> (sint w < 1 \<or> 100000 < sint w)) \<or>
           (\<exists>a v. a \<in> set (cfg_reply c @ cfg_control c) \<and> cfg_op a = Some v \<and>
                  v \<notin> set [''='', '':='', ''+='', ''|='', ''|:='', ''|+='', ''|--''])"
  shows "validate_resourceProfile c \<noteq> [] \<and>
         list_all is_ValidationError (validate_resourceProfile c) \<and>
         apply_create c api = (validate_resourceProfile c, None, api) \<and>
         requests (snd (snd (apply_create c api))) = requests api \<and>
         attr_op (attribute_defaults (a0\<lparr>cfg_op := None\<rparr>)) = '':=''"
proof -
  have invalid: "validate_resourceProfile c \<noteq> []"
    using assms
  proof (elim disjE exE conjE)
    assume "\<not> match_profile_id (cfg_profile_id c)"
    then show ?thesis by (simp add: validate_resourceProfile_def check_def)
  next
    fix w assume "cfg_weight c = Some w" "sint w < 1"
    then show ?thesis
      by (simp add: validate_resourceProfile_def check_set_def check_def IntBetween_def)
  next
    fix w assume "cfg_weight c = Some w" "100000 < sint w"
    then show ?thesis
      by (simp add: validate_resourceProfile_def check_set_def check_def IntBetween_def)
  next
    fix a v
    assume a: "a \<in> set (cfg_reply c @ cfg_control c)" and v: "cfg_op a = Some v"
      and bad: "v \<notin> set [''='', '':='', ''+='', ''|='', ''|:='', ''|+='', ''|--'']"
    from bad have bad': "v \<notin> set op_values" by (simp add: op_values_def)
    from a have "a \<in> set (cfg_reply c) \<or> a \<in> set (cfg_control c)" by simp
    then have "concat (map validate_radiusAttribute (cfg_reply c)) \<noteq> [] \<or>
        concat (map validate_radiusAttribute (cfg_control c)) \<noteq> []"
      using bad_op_rejected [OF _ v bad'] by blast
    then show ?thesis by (auto simp add: validate_resourceProfile_def)
  qed
  then have "apply_create c api = (validate_resourceProfile c, None, api)"
    by (rule apply_create_invalid)
  with invalid show ?thesis
    by (simp add: validate_resourceProfile_ValidationErrors attribute_defaults_def default_to_def)
qed

text \<open>
  The theorem on the operator \<open>bogus\<close>, the identifier \<open>Ab\<close> and the weights 0
  and 100001.
\<close>

theorem validation_rejects_witness:
  "apply_create (example_config\<lparr>cfg_reply := [bogus_attribute]\<rparr>) fresh_remote =
     ([ValidationError ''op''], None, fresh_remote) \<and>
   apply_create (example_config\<lparr>cfg_profile_id := ''Ab''\<rparr>) fresh_remote =
     ([ValidationError ''profile_id''], None, fresh_remote) \<and>
   apply_create (example_config\<lparr>cfg_weight := Some 0\<rparr>) fresh_remote =
     ([ValidationError ''weight''], None, fresh_remote) \<and>
   apply_create (example_config\<lparr>cfg_weight := Some 100001\<rparr>) fresh_remote =
     ([ValidationError ''weight''], None, fresh_remote) \<and>
   requests fresh_remote = [] \<and>
   attr_op (attribute_defaults (bogus_attribute\<lparr>cfg_op := None\<rparr>)) = '':=''"
proof -
  have op: "\<not> match_profile_id (cfg_profile_id (example_config\<lparr>cfg_reply := [bogus_attribute]\<rparr>)) \<or>
      (\<exists>w. cfg_weight (example_config\<lparr>cfg_reply := [bogus_attribute]\<rparr>) = Some w \<and>
           (sint w < 1 \<or> 100000 < sint w)) \<or>
      (\<exists>a v. a \<in> set (cfg_reply (example_config\<lparr>cfg_reply := [bogus_attribute]\<rparr>) @
                       cfg_control (example_config\<lparr>cfg_reply := [bogus_attribute]\<rparr>)) \<and>
             cfg_op a = Some v \<and>
             v \<notin> set [''='', '':='', ''+='', ''|='', ''|:='', ''|+='', ''|--''])"
    by (intro disjI2 exI[of _ bogus_attribute] exI[of _ "''bogus''"])
      (simp add: bogus_attribute_def)
  have ident: "\<not> match_profile_id (cfg_profile_id (example_config\<lparr>cfg_profile_id := ''Ab''\<rparr>)) \<or>
      (\<exists>w. cfg_weight (example_config\<lparr>cfg_profile_id := ''Ab''\<rparr>) = Some w \<and>
           (sint w < 1 \<or> 100000 < sint w)) \<or>
      (\<exists>a v. a \<in> set (cfg_reply (example_config\<lparr>cfg_profile_id := ''Ab''\<rparr>) @
                       cfg_control (example_config\<lparr>cfg_profile_id := ''Ab''\<rparr>)) \<and>
             cfg_op a = Some v \<and>
             v \<notin> set [''='', '':='', ''+='', ''|='', ''|:='', ''|+='', ''|--''])"
    by (simp add: match_profile_id_def)
  have low: "\<not> match_profile_id (cfg_profile_id (example_config\<lparr>cfg_weight := Some 0\<rparr>)) \<or>
      (\<exists>w. cfg_weight (example_config\<lparr>cfg_weight := Some 0\<rparr>) = Some w \<and>
           (sint w < 1 \<or> 100000 < sint w)) \<or>
      (\<exists>a v. a \<in> set (cfg_reply (example_config\<lparr>cfg_weight := Some 0\<rparr>) @
                       cfg_control (example_config\<lparr>cfg_weight := Some 0\<rparr>)) \<and>
             cfg_op a = Some v \<and>
             v \<notin> set [''='', '':='', ''+='', ''|='', ''|:='', ''|+='', ''|--''])"
    by simp
  have high: "\<not> match_profile_id (cfg_profile_id (example_config\<lparr>cfg_weight := Some 100001\<rparr>)) \<or>
      (\<exists>w. cfg_weight (example_config\<lparr>cfg_weight := Some 100001\<rparr>) = Some w \<and>
           (sint w < 1 \<or> 100000 < sint w)) \<or>
      (\<exists>a v. a \<in> set (cfg_reply (example_config\<lparr>cfg_weight := Some 100001\<rparr>) @
                       cfg_control (example_config\<lparr>cfg_weight := Some 100001\<rparr>)) \<and>
             cfg_op a = Some v \<and>
             v \<notin> set [''='', '':='', ''+='', ''|='', ''|:='', ''|+='', ''|--''])"
    by simp
  have v1: "validate_resourceProfile (example_config\<lparr>cfg_reply := [bogus_attribute]\<rparr>) =
      [ValidationError ''op'']"
    by (simp add: validate_resourceProfile_def example_config_def check_def check_set_def
      StringIsNotWhiteSpace_def space_runes_def match_profile_id_def is_digit_def is_lower_def IntBetween_def
      validate_radiusAttribute_def bogus_attribute_def StringInSlice_def op_values_def)
  have v2: "validate_resourceProfile (example_config\<lparr>cfg_profile_id := ''Ab''\<rparr>) =
      [ValidationError ''profile_id'']"
    by (simp add: validate_resourceProfile_def example_config_def check_def check_set_def
      StringIsNotWhiteSpace_def space_runes_def match_profile_id_def is_digit_def is_lower_def IntBetween_def)
  have v3: "validate_resourceProfile (example_config\<lparr>cfg_weight := Some 0\<rparr>) =
      [ValidationError ''weight'']"
    by (simp add: validate_resourceProfile_def example_config_def check_def check_set_def
      StringIsNotWhiteSpace_def space_runes_def match_profile_id_def is_digit_def is_lower_def IntBetween_def)
  have v4: "validate_resourceProfile (example_config\<lparr>cfg_weight := Some 100001\<rparr>) =
      [ValidationError ''weight'']"
    by (simp add: validate_resourceProfile_def example_config_def check_def check_set_def
      StringIsNotWhiteSpace_def space_runes_def match_profile_id_def is_digit_def is_lower_def IntBetween_def)
  have r: "requests fresh_remote = []" by (simp add: fresh_remote_def)
  show ?thesis
    using validation_rejects [OF op, of fresh_remote bogus_attribute]
      validation_rejects [OF ident, of fresh_remote bogus_attribute]
      validation_rejects [OF low, of fresh_remote bogus_attribute]
      validation_rejects [OF high, of fresh_remote bogus_attribute]
    by (simp add: v1 v2 v3 v4 r)
qed





text \<open>
  C8. \<open>resourceProfileUpdate\<close> and \<open>resourceProfileDelete\<close> return success for every
  resource data and client, leave the resource data as it was and send no request.
\<close>

theorem update_delete_no_effect:
  "resourceProfileUpdate d api = (Inr (), d, api) \<and>
   resourceProfileDelete d api = (Inr (), d, api) \<and>
   requests (snd (snd (resourceProfileUpdate d api))) = requests api \<and>
   requests (snd (snd (resourceProfileDelete d api))) = requests api"
  by (simp add: resourceProfileUpdate_def resourceProfileDelete_def)

text \<open>
  C9. When the transport returns an error, or the body of an answer other than 404
  does not decode, \<open>getProfile\<close> returns that error and \<open>resourceProfileRead\<close>
  returns it with the resource data, the tracked id included, as it was.
\<close>

theorem read_error_leaves_state:
  assumes "remote api ''GET'' (''/operator/'' @ operator_id d @ ''/profile/'' @ profile_id d) []
             = Inl e \<or>
           (\<exists>status data.
              remote api ''GET'' (''/operator/'' @ operator_id d @ ''/profile/'' @ profile_id d) []
                = Inr (status, data) \<and>
              status \<noteq> 404 \<and> Unmarshal data zero_RadiusProfile = Inl e)"
  shows "fst (getProfile api (operator_id d) (profile_id d)) = Inl e \<and>
         resourceProfileRead d api =
           (Inl e, d,
            api\<lparr>requests := requests api @
              [(''GET'', ''/operator/'' @ operator_id d @ ''/profile/'' @ profile_id d, [])]\<rparr>)"
proof -
  have get: "getProfile api (operator_id d) (profile_id d) =
      (Inl e,
       api\<lparr>requests := requests api @
         [(''GET'', ''/operator/'' @ operator_id d @ ''/profile/'' @ profile_id d, [])]\<rparr>)"
    using assms
  proof
    assume "remote api ''GET'' (''/operator/'' @ operator_id d @ ''/profile/'' @ profile_id d) []
        = Inl e"
    then show ?thesis by (rule getProfile_error)
  next
    assume "\<exists>status data.
        remote api ''GET'' (''/operator/'' @ operator_id d @ ''/profile/'' @ profile_id d) []
          = Inr (status, data) \<and>
        status \<noteq> 404 \<and> Unmarshal data zero_RadiusProfile = Inl e"
    then obtain status data where
      "remote api ''GET'' (''/operator/'' @ operator_id d @ ''/profile/'' @ profile_id d) []
         = Inr (status, data)"
      "status \<noteq> 404" "Unmarshal data zero_RadiusProfile = Inl e"
      by blast
    then show ?thesis
      using getProfile_body[of api "operator_id d" "profile_id d" status data] by simp
  qed
  then show ?thesis by (simp add: resourceProfileRead_def)
qed

text \<open>
  The theorem on a refused connection, on a body that is not JSON and on a weight
  that is a JSON string.
\<close>

theorem read_error_leaves_state_witness:
  "resourceProfileRead example_data (answering (Inl (TransportError ''connection refused''))) =
     (Inl (TransportError ''connection refused''), example_data,
      answering (Inl (TransportError ''connection refused''))
        \<lparr>requests := [(''GET'', ''/operator/op1/profile/abc'', [])]\<rparr>) \<and>
   resourceProfileRead example_data (answering (Inr (200, NotJson ''<html>''))) =
     (Inl SyntaxError, example_data,
      answering (Inr (200, NotJson ''<html>''))
        \<lparr>requests := [(''GET'', ''/operator/op1/profile/abc'', [])]\<rparr>) \<and>
   resourceProfileRead example_data
       (answering (Inr (200, Doc (JObject [(''weight'', JString ''50'')])))) =
     (Inl (UnmarshalTypeError ''string''), example_data,
      answering (Inr (200, Doc (JObject [(''weight'', JString ''50'')])))
        \<lparr>requests := [(''GET'', ''/operator/op1/profile/abc'', [])]\<rparr>)"
proof -
  have a: "remote (answering (Inl (TransportError ''connection refused''))) ''GET''
        (''/operator/'' @ operator_id example_data @ ''/profile/'' @ profile_id example_data) []
        = Inl (TransportError ''connection refused'') \<or>
      (\<exists>status data.
         remote (answering (Inl (TransportError ''connection refused''))) ''GET''
           (''/operator/'' @ operator_id example_data @ ''/profile/'' @ profile_id example_data) []
           = Inr (status, data) \<and>
         status \<noteq> 404 \<and>
         Unmarshal data zero_RadiusProfile = Inl (TransportError ''connection refused''))"
    by (simp add: answering_def)
  have b: "remote (answering (Inr (200, NotJson ''<html>''))) ''GET''
        (''/operator/'' @ operator_id example_data @ ''/profile/'' @ profile_id example_data) []
        = Inl SyntaxError \<or>
      (\<exists>status data.
         remote (answering (Inr (200, NotJson ''<html>''))) ''GET''
           (''/operator/'' @ operator_id example_data @ ''/profile/'' @ profile_id example_data) []
           = Inr (status, data) \<and>
         status \<noteq> 404 \<and> Unmarshal data zero_RadiusProfile = Inl SyntaxError)"
    by (simp add: answering_def Unmarshal_def)
  have c: "remote (answering (Inr (200, Doc (JObject [(''weight'', JString ''50'')])))) ''GET''
        (''/operator/'' @ operator_id example_data @ ''/profile/'' @ profile_id example_data) []
        = Inl (UnmarshalTypeError ''string'') \<or>
      (\<exists>status data.
         remote (answering (Inr (200, Doc (JObject [(''weight'', JString ''50'')])))) ''GET''
           (''/operator/'' @ operator_id example_data @ ''/profile/'' @ profile_id example_data) []
           = Inr (status, data) \<and>
         status \<noteq> 404 \<and>
         Unmarshal data zero_RadiusProfile = Inl (UnmarshalTypeError ''string''))"
    by (simp add: answering_def Unmarshal_def unmarshal_scalar_simps fold_key_lits
        RadiusProfile_field_def unmarshal_int_def then_set_simps)
  show ?thesis
    using read_error_leaves_state [OF a] read_error_leaves_state [OF b]
      read_error_leaves_state [OF c]
    by (simp add: example_data_ids answering_def)
qed

text \<open>
  C10. \<open>buildProfileObject\<close> writes the state \<open>enabled\<close> for an enabled resource and
  \<open>disabled\<close> otherwise; a read that finds the profile sets the enabled flag exactly
  when the state it read is the string \<open>enabled\<close>.
\<close>

theorem enabled_state_mapping:
  assumes "fst (getProfile api (operator_id d) (profile_id d)) = Inr (Some obj)"
  shows "(\<exists>itm. fst (buildProfileObject d0 api0) = Inr itm \<and>
               State itm = (if enabled d0 then ''enabled'' else ''disabled'')) \<and>
         fst (resourceProfileRead d api) = Inr () \<and>
         enabled (fst (snd (resourceProfileRead d api))) = (State obj = ''enabled'')"
proof -
  have "\<exists>itm. fst (buildProfileObject d0 api0) = Inr itm \<and>
      State itm = (if enabled d0 then ''enabled'' else ''disabled'')"
    by (simp add: buildProfileObject_eq)
  moreover from assms have "resourceProfileRead d api =
      (Inr (), set_profile obj d, snd (getProfile api (operator_id d) (profile_id d)))"
    by (cases "getProfile api (operator_id d) (profile_id d)")
      (simp add: resourceProfileRead_def)
  ultimately show ?thesis by (simp add: set_profile_def)
qed

text \<open>
  The theorem on the state \<open>unknown\<close>, which reads back as not enabled.
\<close>

theorem enabled_state_mapping_witness:
  "fst (buildProfileObject example_data (answering (Inl AuthError))) = Inr example_payload \<and>
   State example_payload = ''enabled'' \<and>
   State (projr (fst (buildProfileObject (example_data\<lparr>enabled := False\<rparr>)
     (answering (Inl AuthError))))) = ''disabled'' \<and>
   fst (getProfile
     (answering (Inr (200, Doc (JObject [(''id'', JString ''abc''), (''state'', JString ''unknown'')]))))
     ''op1'' ''abc'') = Inr (Some (zero_RadiusProfile\<lparr>ID := ''abc'', State := ''unknown''\<rparr>)) \<and>
   enabled (fst (snd (resourceProfileRead example_data
     (answering (Inr (200, Doc (JObject [(''id'', JString ''abc''), (''state'', JString ''unknown'')]))))))) = False \<and>
   enabled (fst (snd (resourceProfileRead (example_data\<lparr>enabled := False\<rparr>)
     (answering (Inr (200, Doc (JObject [(''id'', JString ''abc''), (''state'', JString ''enabled'')]))))))) = True"
proof -
  let ?unknown = "answering (Inr (200, Doc (JObject [(''id'', JString ''abc''), (''state'', JString ''unknown'')])))"
  let ?enabled = "answering (Inr (200, Doc (JObject [(''id'', JString ''abc''), (''state'', JString ''enabled'')])))"
  have u: "fst (getProfile ?unknown (operator_id example_data) (profile_id example_data)) =
      Inr (Some (zero_RadiusProfile\<lparr>ID := ''abc'', State := ''unknown''\<rparr>))"
    by (simp add: getProfile_def sendRequest_def answering_def Unmarshal_def
        unmarshal_scalar_simps fold_key_lits RadiusProfile_field_def then_set_simps
        example_data_ids)
  have e: "fst (getProfile ?enabled (operator_id (example_data\<lparr>enabled := False\<rparr>))
        (profile_id (example_data\<lparr>enabled := False\<rparr>))) =
      Inr (Some (zero_RadiusProfile\<lparr>ID := ''abc'', State := ''enabled''\<rparr>))"
    by (simp add: getProfile_def sendRequest_def answering_def Unmarshal_def
        unmarshal_scalar_simps fold_key_lits RadiusProfile_field_def then_set_simps
        example_data_ids)
  have st: "State example_payload = ''enabled''" by (simp add: example_payload_def)
  have b1: "fst (buildProfileObject example_data (answering (Inl AuthError))) = Inr example_payload"
    by (rule build_example)
  have b2: "State (projr (fst (buildProfileObject (example_data\<lparr>enabled := False\<rparr>)
      (answering (Inl AuthError))))) = ''disabled''"
    by (simp add: buildProfileObject_eq)
  show ?thesis
    using enabled_state_mapping [OF u, of example_data "answering (Inl AuthError)"]
      enabled_state_mapping [OF e, of "example_data\<lparr>enabled := False\<rparr>" "answering (Inl AuthError)"]
      u b1 b2 st
    by (simp add: example_data_ids)
qed

end
